theory Spec2Isabelle
  imports Main "HOL-Library.Word"
begin

section \<open>The termbox2 NIF bridge (termbox2\_nif.c)\<close>

text \<open>
  A shallow embedding of \<^verbatim>\<open>lib/termbox2_nif/c_src/termbox2_nif.c\<close>. Every handler of
  the C file is a function from the world before the call, \<^verbatim>\<open>argc\<close> and \<^verbatim>\<open>argv\<close> to
  the handler's result and the world after the call. The world carries the trace of the
  calls made to the Terminal Engine (termbox2), to the C standard output stream and to the
  Win32 console API, together with the answers these collaborators give.
\<close>

subsection \<open>Boundary values and native types\<close>

type_synonym byte = "8 word"

text \<open>A C \<^verbatim>\<open>int\<close> and a C \<^verbatim>\<open>unsigned int\<close> are 32 bits wide; \<open>sint\<close> reads the first,
  \<open>uint\<close> the second.\<close>

type_synonym c_int = "32 word"
type_synonym c_uint = "32 word"

text \<open>An \<^verbatim>\<open>ERL_NIF_TERM\<close>. Erlang integers are unbounded, a string is a list of character
  codes built from cells, and a list may be improper. \<open>Other\<close> stands for the remaining
  kinds of term (floats, pids, references, funs, maps, bitstrings that are no binaries).\<close>

datatype eterm =
    Atom string
  | Integer int
  | Binary "byte list"
  | ENil
  | ECons eterm eterm
  | Tuple "eterm list"
  | Other nat

text \<open>What a handler hands back to the runtime: a term, the \<^verbatim>\<open>badarg\<close> exception raised
  by \<^verbatim>\<open>enif_make_badarg\<close>, or undefined behaviour of the C program (a read beyond
  \<^verbatim>\<open>argv\<close>, a copy into a null pointer).\<close>

datatype nif_result = Return eterm | Raise_badarg | Undefined_behaviour

datatype platform = Win32 | Posix

subsection \<open>The collaborators\<close>

datatype engine_call =
    Tb_init
  | Tb_shutdown
  | Tb_width
  | Tb_height
  | Tb_clear
  | Tb_present
  | Tb_set_cursor c_int c_int
  | Tb_hide_cursor
  | Tb_set_cell c_int c_int c_uint c_uint c_uint
  | Tb_set_input_mode c_int
  | Tb_set_output_mode c_int
  | Tb_print c_int c_int c_uint c_uint "byte list"

record rect =
  rect_left :: c_int
  rect_top :: c_int
  rect_right :: c_int
  rect_bottom :: c_int

type_synonym hwnd = nat

datatype effect =
    Engine engine_call
  | Printf "byte list"
  | Fflush_stdout
  | SetConsoleTitle "byte list"
  | GetConsoleWindow
  | GetWindowRect hwnd
  | MoveWindow hwnd c_int c_int c_int c_int

record world =
  trace :: "effect list"
  engine_ret :: "engine_call \<Rightarrow> c_int"
  printf_ok :: bool
  fflush_ok :: bool
  malloc_ok :: bool
  set_console_title_ok :: bool
  console_window :: "hwnd option"
  window_rect :: "rect option"
  move_window_ok :: bool

definition emit :: "world \<Rightarrow> effect \<Rightarrow> world" where
  "emit w e = w\<lparr>trace := trace w @ [e]\<rparr>"

text \<open>A call of the Terminal Engine: the call is recorded, the Engine answers.\<close>

definition tb_call :: "world \<Rightarrow> engine_call \<Rightarrow> c_int \<times> world" where
  "tb_call w c = (engine_ret w c, emit w (Engine c))"

text \<open>\<^verbatim>\<open>printf\<close> returns the number of bytes written, or a negative value on an output
  error. The bytes are the format string with its conversions expanded.\<close>

definition printf :: "world \<Rightarrow> byte list \<Rightarrow> int \<times> world" where
  "printf w bs = ((if printf_ok w then int (length bs) else - 1), emit w (Printf bs))"

text \<open>\<^verbatim>\<open>fflush(stdout)\<close> writes what the stream still holds and returns \<^verbatim>\<open>0\<close>, or
  \<^verbatim>\<open>EOF\<close> when that write fails. A buffered stream accepts the bytes of \<^verbatim>\<open>printf\<close> and
  meets the write error only here.\<close>

definition fflush_stdout :: "world \<Rightarrow> int \<times> world" where
  "fflush_stdout w = ((if fflush_ok w then 0 else - 1), emit w Fflush_stdout)"

definition win_SetConsoleTitle :: "world \<Rightarrow> byte list \<Rightarrow> bool \<times> world" where
  "win_SetConsoleTitle w s = (set_console_title_ok w, emit w (SetConsoleTitle s))"

definition win_GetConsoleWindow :: "world \<Rightarrow> hwnd option \<times> world" where
  "win_GetConsoleWindow w = (console_window w, emit w GetConsoleWindow)"

definition win_GetWindowRect :: "world \<Rightarrow> hwnd \<Rightarrow> rect option \<times> world" where
  "win_GetWindowRect w h = (window_rect w, emit w (GetWindowRect h))"

definition win_MoveWindow ::
  "world \<Rightarrow> hwnd \<Rightarrow> c_int \<Rightarrow> c_int \<Rightarrow> c_int \<Rightarrow> c_int \<Rightarrow> bool \<times> world" where
  "win_MoveWindow w h x y wd ht = (move_window_ok w, emit w (MoveWindow h x y wd ht))"

subsection \<open>The NIF API of the Erlang runtime, as documented in erl\_nif\<close>

text \<open>\<^verbatim>\<open>enif_get_int\<close>: true, with the value stored, exactly when the term is an integer
  within the bounds of type \<^verbatim>\<open>int\<close>.\<close>

definition enif_get_int :: "eterm \<Rightarrow> c_int option" where
  "enif_get_int t =
     (case t of
        Integer i \<Rightarrow> if - (2 ^ 31) \<le> i \<and> i < 2 ^ 31 then Some (word_of_int i) else None
      | _ \<Rightarrow> None)"

text \<open>\<^verbatim>\<open>enif_get_uint\<close>: the same for \<^verbatim>\<open>unsigned int\<close>.\<close>

definition enif_get_uint :: "eterm \<Rightarrow> c_uint option" where
  "enif_get_uint t =
     (case t of
        Integer i \<Rightarrow> if 0 \<le> i \<and> i < 2 ^ 32 then Some (word_of_int i) else None
      | _ \<Rightarrow> None)"

definition enif_is_binary :: "eterm \<Rightarrow> bool" where
  "enif_is_binary t = (case t of Binary _ \<Rightarrow> True | _ \<Rightarrow> False)"

definition enif_inspect_binary :: "eterm \<Rightarrow> byte list option" where
  "enif_inspect_binary t = (case t of Binary b \<Rightarrow> Some b | _ \<Rightarrow> None)"

text \<open>
  \<^verbatim>\<open>enif_get_string(env, list, buf, size, ERL_NIF_LATIN1)\<close> walks the cells of the list
  and writes one byte per character into \<^verbatim>\<open>buf\<close>. It returns the number of bytes written
  including the terminating zero, or \<^verbatim>\<open>-size\<close> when the string was truncated because of
  buffer space (the buffer then holds the first \<^verbatim>\<open>size - 1\<close> characters and the zero), or
  \<^verbatim>\<open>0\<close> when the term is not a list of characters in Latin-1 or \<^verbatim>\<open>size < 1\<close>. The second
  component is what has been written to the buffer.
\<close>

fun get_string_loop :: "nat \<Rightarrow> eterm \<Rightarrow> byte list \<Rightarrow> int \<times> byte list" where
  "get_string_loop sz ENil buf = (int (length buf) + 1, buf @ [0])"
| "get_string_loop sz (ECons (Integer c) t) buf =
     (if 0 \<le> c \<and> c \<le> 255 then
        (if length buf + 1 \<ge> sz then (- int sz, buf @ [0])
         else get_string_loop sz t (buf @ [word_of_int c]))
      else (0, buf @ [0]))"
| "get_string_loop sz _ buf = (0, buf @ [0])"

definition enif_get_string :: "eterm \<Rightarrow> nat \<Rightarrow> int \<times> byte list" where
  "enif_get_string list sz = (if sz < 1 then (0, []) else get_string_loop sz list [])"

text \<open>\<^verbatim>\<open>enif_make_string(env, s, ERL_NIF_LATIN1)\<close>: the list of the character codes.\<close>

definition enif_make_string :: "string \<Rightarrow> eterm" where
  "enif_make_string s = foldr (\<lambda>c t. ECons (Integer (of_char c)) t) s ENil"

definition enif_make_int :: "c_int \<Rightarrow> eterm" where
  "enif_make_int r = Integer (sint r)"

subsection \<open>C strings\<close>

text \<open>The bytes a C string API reads from a buffer: those before the first zero byte.\<close>

definition c_string :: "byte list \<Rightarrow> byte list" where
  "c_string buf = takeWhile (\<lambda>b. b \<noteq> 0) buf"

text \<open>\<^verbatim>\<open>memcpy(str, bin.data, bin.size); str[bin.size] = '\0';\<close> The buffer is given by
  the bytes written to it.\<close>

definition marshal :: "byte list \<Rightarrow> byte list" where
  "marshal bin = bin @ [0]"

text \<open>The characters of a C string literal as bytes.\<close>

definition c_lit :: "string \<Rightarrow> byte list" where
  "c_lit s = map of_char s"

text \<open>The conversion \<^verbatim>\<open>%d\<close> of \<^verbatim>\<open>printf\<close>.\<close>

fun dec_of_nat :: "nat \<Rightarrow> byte list" where
  "dec_of_nat n =
     (if n < 10 then [of_nat (48 + n)]
      else dec_of_nat (n div 10) @ [of_nat (48 + n mod 10)])"

declare dec_of_nat.simps [simp del]

definition fmt_d :: "c_int \<Rightarrow> byte list" where
  "fmt_d v = (if sint v < 0 then 0x2D # dec_of_nat (nat (- sint v)) else dec_of_nat (nat (sint v)))"

text \<open>Reading a decimal numeral back, for stating what \<open>dec_of_nat\<close> prints.\<close>

definition nat_of_dec :: "byte list \<Rightarrow> nat" where
  "nat_of_dec ds = foldl (\<lambda>a d. 10 * a + (unat d - 48)) 0 ds"

subsection \<open>Reading and converting arguments\<close>

text \<open>\<^verbatim>\<open>argv[i]\<close>; reading beyond the array is undefined in C.\<close>

definition arg :: "eterm list \<Rightarrow> nat \<Rightarrow> eterm option" where
  "arg argv i = (if i < length argv then Some (argv ! i) else None)"

text \<open>One disjunct \<^verbatim>\<open>!enif_get_xxx(env, argv[i], &v) ||\<close> of a handler's validation: when
  the conversion fails the handler returns \<open>bad\<close> at once, otherwise the rest \<open>k\<close> of the
  handler runs with the converted value.\<close>

definition conv ::
  "(eterm \<Rightarrow> 'a option) \<Rightarrow> nif_result \<Rightarrow> world \<Rightarrow> eterm list \<Rightarrow> nat \<Rightarrow>
   ('a \<Rightarrow> nif_result \<times> world) \<Rightarrow> nif_result \<times> world" where
  "conv get bad w argv i k =
     (case arg argv i of
        None \<Rightarrow> (Undefined_behaviour, w)
      | Some a \<Rightarrow> (case get a of None \<Rightarrow> (bad, w) | Some v \<Rightarrow> k v))"

subsection \<open>The handlers of the Terminal Engine operations\<close>

definition nif_tb_init :: "world \<Rightarrow> int \<Rightarrow> eterm list \<Rightarrow> nif_result \<times> world" where
  "nif_tb_init w argc argv = (let (r, w') = tb_call w Tb_init in (Return (enif_make_int r), w'))"

definition nif_tb_shutdown :: "world \<Rightarrow> int \<Rightarrow> eterm list \<Rightarrow> nif_result \<times> world" where
  "nif_tb_shutdown w argc argv = (let (r, w') = tb_call w Tb_shutdown in (Return (Atom ''ok''), w'))"

definition nif_tb_width :: "world \<Rightarrow> int \<Rightarrow> eterm list \<Rightarrow> nif_result \<times> world" where
  "nif_tb_width w argc argv = (let (r, w') = tb_call w Tb_width in (Return (enif_make_int r), w'))"

definition nif_tb_height :: "world \<Rightarrow> int \<Rightarrow> eterm list \<Rightarrow> nif_result \<times> world" where
  "nif_tb_height w argc argv = (let (r, w') = tb_call w Tb_height in (Return (enif_make_int r), w'))"

definition nif_tb_clear :: "world \<Rightarrow> int \<Rightarrow> eterm list \<Rightarrow> nif_result \<times> world" where
  "nif_tb_clear w argc argv = (let (r, w') = tb_call w Tb_clear in (Return (Atom ''ok''), w'))"

definition nif_tb_present :: "world \<Rightarrow> int \<Rightarrow> eterm list \<Rightarrow> nif_result \<times> world" where
  "nif_tb_present w argc argv = (let (r, w') = tb_call w Tb_present in (Return (Atom ''ok''), w'))"

definition nif_tb_set_cursor :: "world \<Rightarrow> int \<Rightarrow> eterm list \<Rightarrow> nif_result \<times> world" where
  "nif_tb_set_cursor w argc argv =
     conv enif_get_int Raise_badarg w argv 0 (\<lambda>x.
     conv enif_get_int Raise_badarg w argv 1 (\<lambda>y.
       let (r, w') = tb_call w (Tb_set_cursor x y) in (Return (Atom ''ok''), w')))"

definition nif_tb_hide_cursor :: "world \<Rightarrow> int \<Rightarrow> eterm list \<Rightarrow> nif_result \<times> world" where
  "nif_tb_hide_cursor w argc argv =
     (let (r, w') = tb_call w Tb_hide_cursor in (Return (enif_make_int r), w'))"

definition nif_tb_set_cell :: "world \<Rightarrow> int \<Rightarrow> eterm list \<Rightarrow> nif_result \<times> world" where
  "nif_tb_set_cell w argc argv =
     conv enif_get_int Raise_badarg w argv 0 (\<lambda>x.
     conv enif_get_int Raise_badarg w argv 1 (\<lambda>y.
     conv enif_get_uint Raise_badarg w argv 2 (\<lambda>ch.
     conv enif_get_uint Raise_badarg w argv 3 (\<lambda>fg.
     conv enif_get_uint Raise_badarg w argv 4 (\<lambda>bg.
       let (r, w') = tb_call w (Tb_set_cell x y ch fg bg) in (Return (enif_make_int r), w'))))))"

definition nif_tb_set_input_mode :: "world \<Rightarrow> int \<Rightarrow> eterm list \<Rightarrow> nif_result \<times> world" where
  "nif_tb_set_input_mode w argc argv =
     conv enif_get_int Raise_badarg w argv 0 (\<lambda>mode.
       let (r, w') = tb_call w (Tb_set_input_mode mode) in (Return (enif_make_int r), w'))"

definition nif_tb_set_output_mode :: "world \<Rightarrow> int \<Rightarrow> eterm list \<Rightarrow> nif_result \<times> world" where
  "nif_tb_set_output_mode w argc argv =
     conv enif_get_int Raise_badarg w argv 0 (\<lambda>mode.
       let (r, w') = tb_call w (Tb_set_output_mode mode) in (Return (enif_make_int r), w'))"

text \<open>\<^verbatim>\<open>malloc\<close> is not checked by the handler: when it returns a null pointer the
  \<^verbatim>\<open>memcpy\<close> that follows is undefined.\<close>

definition nif_tb_print :: "world \<Rightarrow> int \<Rightarrow> eterm list \<Rightarrow> nif_result \<times> world" where
  "nif_tb_print w argc argv =
     conv enif_get_int Raise_badarg w argv 0 (\<lambda>x.
     conv enif_get_int Raise_badarg w argv 1 (\<lambda>y.
     conv enif_get_uint Raise_badarg w argv 2 (\<lambda>fg.
     conv enif_get_uint Raise_badarg w argv 3 (\<lambda>bg.
     conv enif_inspect_binary Raise_badarg w argv 4 (\<lambda>bin.
       if \<not> malloc_ok w then (Undefined_behaviour, w)
       else
         let str = marshal bin;
             (r, w') = tb_call w (Tb_print x y fg bg str)
         in (Return (enif_make_int r), w'))))))"

subsection \<open>The window decoration handlers\<close>

definition error_badarg :: eterm where
  "error_badarg = Tuple [Atom ''error'', Atom ''badarg'']"

definition ok_set :: eterm where
  "ok_set = Tuple [Atom ''ok'', enif_make_string ''set'']"

definition error_string :: "string \<Rightarrow> eterm" where
  "error_string s = Tuple [Atom ''error'', enif_make_string s]"

text \<open>Lines 164 to 186 of the source: what is written to \<^verbatim>\<open>char title[256]\<close>, up to and
  including the terminating zero, or \<open>None\<close> where the handler returns \<^verbatim>\<open>{error, badarg}\<close>.
  The branch of the legacy string is taken whenever \<^verbatim>\<open>enif_get_string\<close> returns a value
  other than zero.\<close>

definition title_buffer :: "eterm \<Rightarrow> byte list option" where
  "title_buffer a =
     (if enif_is_binary a then
        (case enif_inspect_binary a of
           None \<Rightarrow> None
         | Some bin \<Rightarrow> if length bin \<ge> 256 then None else Some (marshal bin))
      else
        (case enif_get_string a 256 of
           (r, buf) \<Rightarrow> if r \<noteq> 0 then Some buf else None))"

text \<open>The format \<^verbatim>\<open>"\033]0;%s\007"\<close>.\<close>

definition osc_title :: "byte list \<Rightarrow> byte list" where
  "osc_title title = [0x1B] @ c_lit '']0;'' @ c_string title @ [0x07]"

definition tb_set_title :: "platform \<Rightarrow> world \<Rightarrow> int \<Rightarrow> eterm list \<Rightarrow> nif_result \<times> world" where
  "tb_set_title pf w argc argv =
     (if argc \<noteq> 1 then (Return error_badarg, w)
      else
        case arg argv 0 of
          None \<Rightarrow> (Undefined_behaviour, w)
        | Some a \<Rightarrow>
            (case title_buffer a of
               None \<Rightarrow> (Return error_badarg, w)
             | Some title \<Rightarrow>
                 (case pf of
                    Win32 \<Rightarrow>
                      (let (ok, w') = win_SetConsoleTitle w (c_string title) in
                       if ok then (Return ok_set, w')
                       else (Return (error_string ''SetConsoleTitle failed''), w'))
                  | Posix \<Rightarrow>
                      (let (n, w') = printf w (osc_title title) in
                       if n < 0 then (Return (error_string ''Failed to set title''), w')
                       else
                         (let (e, w'') = fflush_stdout w' in (Return ok_set, w''))))))"

text \<open>The format \<^verbatim>\<open>"\033[3;%d;%dt"\<close>, applied to \<^verbatim>\<open>y\<close> and \<^verbatim>\<open>x\<close> in this order.\<close>

definition csi_position :: "c_int \<Rightarrow> c_int \<Rightarrow> byte list" where
  "csi_position y x = [0x1B] @ c_lit ''[3;'' @ fmt_d y @ c_lit '';'' @ fmt_d x @ c_lit ''t''"

definition tb_set_position :: "platform \<Rightarrow> world \<Rightarrow> int \<Rightarrow> eterm list \<Rightarrow> nif_result \<times> world" where
  "tb_set_position pf w argc argv =
     (if argc \<noteq> 2 then (Return error_badarg, w)
      else
        conv enif_get_int (Return error_badarg) w argv 0 (\<lambda>x.
        conv enif_get_int (Return error_badarg) w argv 1 (\<lambda>y.
          if sint x < 0 \<or> sint y < 0 \<or> sint x > 32767 \<or> sint y > 32767
          then (Return error_badarg, w)
          else
            (case pf of
               Win32 \<Rightarrow>
                 (case win_GetConsoleWindow w of
                    (None, w1) \<Rightarrow> (Return (error_string ''GetConsoleWindow failed''), w1)
                  | (Some h, w1) \<Rightarrow>
                      (case win_GetWindowRect w1 h of
                         (None, w2) \<Rightarrow> (Return (error_string ''GetWindowRect failed''), w2)
                       | (Some r, w2) \<Rightarrow>
                           (let width = rect_right r - rect_left r;
                                height = rect_bottom r - rect_top r;
                                (ok, w3) = win_MoveWindow w2 h x y width height
                            in if ok then (Return ok_set, w3)
                               else (Return (error_string ''MoveWindow failed''), w3))))
             | Posix \<Rightarrow>
                 (let (n, w') = printf w (csi_position y x) in
                  if n < 0 then (Return (error_string ''Failed to set position''), w')
                  else
                    (let (e, w'') = fflush_stdout w' in (Return ok_set, w'')))))))"

subsection \<open>The registration table\<close>

type_synonym handler = "platform \<Rightarrow> world \<Rightarrow> int \<Rightarrow> eterm list \<Rightarrow> nif_result \<times> world"

definition nif_funcs :: "(string \<times> nat \<times> handler) list" where
  "nif_funcs =
     [(''tb_init'', 0, \<lambda>pf. nif_tb_init),
      (''tb_shutdown'', 0, \<lambda>pf. nif_tb_shutdown),
      (''tb_width'', 0, \<lambda>pf. nif_tb_width),
      (''tb_height'', 0, \<lambda>pf. nif_tb_height),
      (''tb_clear'', 0, \<lambda>pf. nif_tb_clear),
      (''tb_present'', 0, \<lambda>pf. nif_tb_present),
      (''tb_set_cursor'', 2, \<lambda>pf. nif_tb_set_cursor),
      (''tb_hide_cursor'', 0, \<lambda>pf. nif_tb_hide_cursor),
      (''tb_set_cell'', 5, \<lambda>pf. nif_tb_set_cell),
      (''tb_set_input_mode'', 1, \<lambda>pf. nif_tb_set_input_mode),
      (''tb_set_output_mode'', 1, \<lambda>pf. nif_tb_set_output_mode),
      (''tb_print'', 5, \<lambda>pf. nif_tb_print),
      (''tb_set_title'', 1, tb_set_title),
      (''tb_set_position'', 2, tb_set_position)]"

text \<open>The arity under which the table registers an operation.\<close>

definition registered_arity :: "string \<Rightarrow> nat option" where
  "registered_arity name = map_of (map (\<lambda>(n, a, h). (n, a)) nif_funcs) name"

text \<open>Modelled from the spec: the lookup of the Terminal Operation Dispatcher. The source
  holds the table only; the lookup is made by the Erlang runtime and the stubs of the module
  \<^verbatim>\<open>termbox2_nif\<close>, which are not part of the C file. Section 4.3 of the specification:
  the operation set is exposed as a table keyed by name and arity.\<close>

definition lookup_nif :: "string \<Rightarrow> nat \<Rightarrow> handler option" where
  "lookup_nif name n =
     map_option (\<lambda>(nm, a, h). h) (find (\<lambda>(nm, a, h). nm = name \<and> a = n) nif_funcs)"

text \<open>Modelled from the spec: the invocation of an operation, a name with its argument
  tuple, through the Dispatcher; this step too is made outside the C file. Section 4.3 of
  the specification: an invocation is forwarded to the handler of its name and arity, which
  receives the number of arguments as \<^verbatim>\<open>argc\<close>; an invocation with the wrong arity is a
  contract violation signaled identically to \<open>InvalidArgument\<close>, and no handler runs.\<close>

definition invoke :: "platform \<Rightarrow> world \<Rightarrow> string \<Rightarrow> eterm list \<Rightarrow> nif_result \<times> world" where
  "invoke pf w name argv =
     (case lookup_nif name (length argv) of
        None \<Rightarrow> (Raise_badarg, w)
      | Some h \<Rightarrow> h pf w (int (length argv)) argv)"

subsection \<open>Vocabulary of the specification\<close>

text \<open>\<open>InvalidArgument\<close> reaches the host either as the \<^verbatim>\<open>badarg\<close> exception (the Engine
  handlers) or as the tuple \<^verbatim>\<open>{error, badarg}\<close> (the decoration handlers).\<close>

definition invalid_argument :: "nif_result \<Rightarrow> bool" where
  "invalid_argument r = (r = Raise_badarg \<or> r = Return error_badarg)"

text \<open>The Erlang string (a proper list of character codes) with the given bytes.\<close>

definition string_term :: "byte list \<Rightarrow> eterm" where
  "string_term bs = foldr (\<lambda>b t. ECons (Integer (uint b)) t) bs ENil"

text \<open>A world in which every collaborator answers with success.\<close>

definition calm :: world where
  "calm = \<lparr>trace = [], engine_ret = (\<lambda>c. 0), printf_ok = True, fflush_ok = True,
            malloc_ok = True,
            set_console_title_ok = True, console_window = Some 1,
            window_rect = Some \<lparr>rect_left = 0, rect_top = 0, rect_right = 80, rect_bottom = 24\<rparr>,
            move_window_ok = True\<rparr>"

text \<open>A world whose standard output is buffered and cannot be written: \<^verbatim>\<open>printf\<close> fills
  the buffer and succeeds, the write made by \<^verbatim>\<open>fflush\<close> fails.\<close>

definition flush_fails :: world where
  "flush_fails = calm\<lparr>fflush_ok := False\<rparr>"

text \<open>\<open>PlatformCallFailed\<close> reaches the host as the tuple \<^verbatim>\<open>{error, Reason}\<close> whose reason
  is a non-empty string of Latin-1 characters.\<close>

fun is_latin1_string :: "eterm \<Rightarrow> bool" where
  "is_latin1_string ENil = True"
| "is_latin1_string (ECons (Integer c) t) = (0 \<le> c \<and> c \<le> 255 \<and> is_latin1_string t)"
| "is_latin1_string _ = False"

definition platform_call_failed :: "nif_result \<Rightarrow> bool" where
  "platform_call_failed r =
     (case r of
        Return (Tuple [Atom tag, reason]) \<Rightarrow>
          tag = ''error'' \<and> reason \<noteq> ENil \<and> is_latin1_string reason
      | _ \<Rightarrow> False)"

text \<open>A boundary value converts losslessly to \<^verbatim>\<open>int\<close> (to \<^verbatim>\<open>unsigned int\<close>) when it is
  an integer within the bounds of that type.\<close>

definition representable_int :: "eterm \<Rightarrow> bool" where
  "representable_int t = (case t of Integer i \<Rightarrow> - (2 ^ 31) \<le> i \<and> i < 2 ^ 31 | _ \<Rightarrow> False)"

definition representable_uint :: "eterm \<Rightarrow> bool" where
  "representable_uint t = (case t of Integer i \<Rightarrow> 0 \<le> i \<and> i < 2 ^ 32 | _ \<Rightarrow> False)"

section \<open>Properties\<close>

subsection \<open>Native integers, strings and buffers\<close>

lemma sint_c_int: "- (2 ^ 31) \<le> i \<Longrightarrow> i < 2 ^ 31 \<Longrightarrow> sint (word_of_int i :: c_int) = i"
  by (simp add: sint_sbintrunc' signed_take_bit_int_eq_self)

lemma uint_c_uint: "0 \<le> i \<Longrightarrow> i < 2 ^ 32 \<Longrightarrow> uint (word_of_int i :: c_uint) = i"
  by (simp add: uint_word_of_int take_bit_int_eq_self)

lemma uint_byte_range: "0 \<le> uint (b :: byte) \<and> uint b \<le> 255"
proof -
  have "uint b < 2 ^ LENGTH(8)" by (rule uint_lt2p)
  then show ?thesis by simp
qed

lemma string_term_Cons: "string_term (b # bs) = ECons (Integer (uint b)) (string_term bs)"
  by (simp add: string_term_def)

lemma string_term_Nil: "string_term [] = ENil"
  by (simp add: string_term_def)

lemma get_string_loop_string_term:
  "length buf < sz \<Longrightarrow>
   get_string_loop sz (string_term bs) buf =
     (if length buf + length bs < sz then (int (length buf + length bs) + 1, buf @ bs @ [0])
      else (- int sz, take (sz - 1) (buf @ bs) @ [0]))"
proof (induction bs arbitrary: buf)
  case Nil
  then show ?case by (simp add: string_term_Nil)
next
  case (Cons b bs)
  show ?case
  proof (cases "length buf + 1 \<ge> sz")
    case True
    with Cons.prems have "length buf = sz - 1" by simp
    with True Cons.prems show ?thesis
      using uint_byte_range [of b] by (simp add: string_term_Cons)
  next
    case False
    then have "length (buf @ [b]) < sz" by simp
    from Cons.IH [OF this] False show ?thesis
      using uint_byte_range [of b] by (simp add: string_term_Cons)
  qed
qed

lemma enif_get_string_string_term:
  "0 < sz \<Longrightarrow> enif_get_string (string_term bs) sz =
     (if length bs < sz then (int (length bs) + 1, bs @ [0])
      else (- int sz, take (sz - 1) bs @ [0]))"
  using get_string_loop_string_term [of "[]" sz bs] by (simp add: enif_get_string_def)

lemma c_string_marshal: "c_string (bs @ [0]) = takeWhile (\<lambda>b. b \<noteq> 0) bs"
  by (simp add: c_string_def takeWhile_tail)

lemma takeWhile_zero_free: "0 \<notin> set bs \<Longrightarrow> takeWhile (\<lambda>b. b \<noteq> 0) bs = bs"
  by (induction bs) auto

lemma enif_is_binary_string_term: "\<not> enif_is_binary (string_term bs)"
  by (cases bs) (simp_all add: enif_is_binary_def string_term_def)

lemma title_buffer_Binary:
  "title_buffer (Binary p) = (if length p \<ge> 256 then None else Some (marshal p))"
  by (simp add: title_buffer_def enif_is_binary_def enif_inspect_binary_def)

lemma title_buffer_string_term: "title_buffer (string_term p) = Some (marshal (take 255 p))"
  by (simp add: title_buffer_def enif_is_binary_string_term enif_get_string_string_term marshal_def)

lemma arg_simps: "arg (a # as) 0 = Some a" "arg (a # as) (Suc n) = arg as n" "arg [] n = None"
  by (simp_all add: arg_def)

lemma trace_emit: "trace (emit w e) = trace w @ [e]"
  by (simp add: emit_def)

lemma set_title_posix_of_buffer:
  "title_buffer a = Some (marshal t) \<Longrightarrow>
   tb_set_title Posix w 1 [a] =
     (if printf_ok w
      then (Return ok_set, snd (fflush_stdout (emit w (Printf (osc_title (marshal t))))))
      else (Return (error_string ''Failed to set title''), emit w (Printf (osc_title (marshal t)))))"
  by (simp add: tb_set_title_def arg_simps printf_def fflush_stdout_def)

lemma set_title_win32_of_buffer:
  "title_buffer a = Some (marshal t) \<Longrightarrow>
   tb_set_title Win32 w 1 [a] =
     (if set_console_title_ok w
      then (Return ok_set, emit w (SetConsoleTitle (c_string (marshal t))))
      else (Return (error_string ''SetConsoleTitle failed''), emit w (SetConsoleTitle (c_string (marshal t)))))"
  by (simp add: tb_set_title_def arg_simps win_SetConsoleTitle_def)

lemma osc_title_marshal:
  "osc_title (marshal t) = [0x1B, 0x5D, 0x30, 0x3B] @ takeWhile (\<lambda>b. b \<noteq> 0) t @ [0x07]"
  by (simp add: osc_title_def marshal_def c_string_marshal c_lit_def)

lemma platform_call_failed_title:
  "platform_call_failed (Return (error_string ''Failed to set title''))"
  "platform_call_failed (Return (error_string ''Failed to set position''))"
  "\<not> platform_call_failed (Return ok_set)"
  "\<not> platform_call_failed (Return error_badarg)"
  by (simp_all add: platform_call_failed_def error_string_def enif_make_string_def ok_set_def
      error_badarg_def)

subsection \<open>Oversized titles\<close>

text \<open>A binary of 256 bytes or more is rejected before anything is written.\<close>

lemma set_title_binary_oversized:
  "length p \<ge> 256 \<Longrightarrow> tb_set_title pf w 1 [Binary p] = (Return error_badarg, w)"
  by (simp add: tb_set_title_def arg_simps title_buffer_Binary)

text \<open>
  Claim C1 says that \<^verbatim>\<open>set_title\<close> rejects every payload of 256 bytes or more with
  \<open>InvalidArgument\<close> before any output is written, whether the payload is a binary or a
  legacy string. The handler does so for a binary, but not for a legacy string: for a list
  of 256 characters \<^verbatim>\<open>enif_get_string\<close> returns \<^verbatim>\<open>-256\<close>, which the handler takes for
  success, so the title is cut to its first 255 bytes, written in the OSC-0 sequence, and the
  result is \<^verbatim>\<open>{ok, "set"}\<close>.
\<close>

theorem set_title_oversized_string_accepted:
  "fst (tb_set_title Posix calm 1 [string_term (replicate 256 0x61)]) = Return ok_set \<and>
   trace (snd (tb_set_title Posix calm 1 [string_term (replicate 256 0x61)])) =
     [Printf ([0x1B, 0x5D, 0x30, 0x3B] @ replicate 255 0x61 @ [0x07]), Fflush_stdout] \<and>
   \<not> invalid_argument (fst (tb_set_title Posix calm 1 [string_term (replicate 256 0x61)]))"
proof -
  have pok: "printf_ok calm" and tr: "trace calm = []"
    by (simp_all add: calm_def)
  have buf: "title_buffer (string_term (replicate 256 0x61)) = Some (marshal (replicate 255 0x61))"
    by (simp add: title_buffer_string_term)
  show ?thesis
    by (simp add: set_title_posix_of_buffer [OF buf] pok osc_title_marshal fflush_stdout_def
        trace_emit tr invalid_argument_def ok_set_def error_badarg_def)
qed

subsection \<open>Window position\<close>

lemma conv_Some: "arg argv i = Some a \<Longrightarrow> get a = Some v \<Longrightarrow> conv get bad w argv i k = k v"
  by (simp add: conv_def)

lemma conv_None: "arg argv i = Some a \<Longrightarrow> get a = None \<Longrightarrow> conv get bad w argv i k = (bad, w)"
  by (simp add: conv_def)

lemma enif_get_int_Integer:
  "enif_get_int (Integer i) = (if - (2 ^ 31) \<le> i \<and> i < 2 ^ 31 then Some (word_of_int i) else None)"
  by (simp add: enif_get_int_def)

lemma enif_get_uint_Integer:
  "enif_get_uint (Integer i) = (if 0 \<le> i \<and> i < 2 ^ 32 then Some (word_of_int i) else None)"
  by (simp add: enif_get_uint_def)

lemma arg2: "arg [a, b] 0 = Some a" "arg [a, b] 1 = Some b" "arg [a, b] (Suc 0) = Some b"
  by (simp_all add: arg_def)

text \<open>
  Claim C2: for \<^verbatim>\<open>set_position\<close>, every pair \<open>(x, y)\<close> of integers with \<open>x < 0\<close> or
  \<open>y < 0\<close> or \<open>x > 32767\<close> or \<open>y > 32767\<close> gives \<open>InvalidArgument\<close>, and no platform
  call occurs: the world after the call is the world before it, on either platform. The
  integers are Erlang integers, so the pairs beyond the width of \<^verbatim>\<open>int\<close> are included.
\<close>

theorem set_position_out_of_range:
  "x < 0 \<or> y < 0 \<or> x > 32767 \<or> y > 32767 \<Longrightarrow>
   tb_set_position pf w 2 [Integer x, Integer y] = (Return error_badarg, w)"
  by (auto simp: tb_set_position_def conv_def arg2 enif_get_int_Integer sint_c_int)

theorem set_position_out_of_range_witness:
  "(32768 :: int) > 32767 \<and>
   tb_set_position Posix calm 2 [Integer 32768, Integer 0] = (Return error_badarg, calm)"
  using set_position_out_of_range [of 32768 0 Posix calm] by simp

text \<open>The conversion \<^verbatim>\<open>%d\<close> prints decimal digits that read back as the number.\<close>

lemma unat_digit: "k < 10 \<Longrightarrow> unat (48 + word_of_nat k :: byte) = 48 + k"
  using unat_of_nat [where 'a = 8, of "48 + k"] by simp

lemma nat_of_dec_snoc: "nat_of_dec (ds @ [d]) = 10 * nat_of_dec ds + (unat d - 48)"
  by (simp add: nat_of_dec_def)

lemma nat_of_dec_dec_of_nat: "nat_of_dec (dec_of_nat n) = n"
proof (induction n rule: dec_of_nat.induct)
  case (1 n)
  show ?case
  proof (cases "n < 10")
    case True
    then show ?thesis
      by (simp add: dec_of_nat.simps [of n] nat_of_dec_def unat_digit)
  next
    case False
    with 1 have "nat_of_dec (dec_of_nat (n div 10)) = n div 10" by simp
    with False show ?thesis
      by (simp add: dec_of_nat.simps [of n] nat_of_dec_snoc unat_digit)
  qed
qed

lemma dec_of_nat_digits: "d \<in> set (dec_of_nat n) \<Longrightarrow> 48 \<le> unat d \<and> unat d \<le> 57"
proof (induction n rule: dec_of_nat.induct)
  case (1 n)
  show ?case
  proof (cases "n < 10")
    case True
    with 1(2) show ?thesis
      by (simp add: dec_of_nat.simps [of n] unat_digit)
  next
    case False
    with 1 show ?thesis
      by (auto simp: dec_of_nat.simps [of n] unat_digit)
  qed
qed

lemma fmt_d_nonneg:
  "0 \<le> i \<Longrightarrow> i < 2 ^ 31 \<Longrightarrow> fmt_d (word_of_int i) = dec_of_nat (nat i)"
  by (simp add: fmt_d_def sint_c_int)

lemma dec_of_nat_nonempty: "dec_of_nat n \<noteq> []"
  by (subst dec_of_nat.simps) simp

lemma dec_of_nat_zero: "dec_of_nat 0 = [0x30]"
  by (simp add: dec_of_nat.simps)

lemma digit_not_zero: "0 < k \<Longrightarrow> k < 10 \<Longrightarrow> (48 + word_of_nat k :: byte) \<noteq> 48"
proof
  assume "0 < k" "k < 10" and e: "(48 + word_of_nat k :: byte) = 48"
  from \<open>k < 10\<close> have "unat (48 + word_of_nat k :: byte) = 48 + k" by (rule unat_digit)
  with e have "unat (48 :: byte) = 48 + k" by simp
  with \<open>0 < k\<close> show False by simp
qed

lemma word_digit_not_zero: "0 < k \<Longrightarrow> k < 10 \<Longrightarrow> (word_of_nat k :: byte) \<noteq> 0"
  using digit_not_zero [of k] by auto

lemma dec_of_nat_no_leading_zero: "0 < n \<Longrightarrow> hd (dec_of_nat n) \<noteq> 48"
proof (induction n rule: dec_of_nat.induct)
  case (1 n)
  show ?case
  proof (cases "n < 10")
    case True
    with 1(2) show ?thesis
      by (simp add: dec_of_nat.simps [of n] word_digit_not_zero)
  next
    case False
    then have "0 < n div 10" by simp
    with 1(1) False have "hd (dec_of_nat (n div 10)) \<noteq> 48" by simp
    with False show ?thesis
      by (simp add: dec_of_nat.simps [of n] dec_of_nat_nonempty)
  qed
qed

lemma dec_of_nat_decimal:
  "dec_of_nat n \<noteq> [] \<and> (\<forall>d \<in> set (dec_of_nat n). 48 \<le> unat d \<and> unat d \<le> 57) \<and>
   (0 < n \<longrightarrow> hd (dec_of_nat n) \<noteq> 48) \<and> nat_of_dec (dec_of_nat n) = n"
  by (simp add: dec_of_nat_nonempty dec_of_nat_digits dec_of_nat_no_leading_zero
      nat_of_dec_dec_of_nat)

text \<open>
  On the escape-sequence branch, for every \<open>(x, y)\<close> within \<open>[0, 32767]\<close> the handler of
  \<^verbatim>\<open>set_position\<close> hands to \<^verbatim>\<open>printf\<close> exactly \<^verbatim>\<open>ESC [ 3 ; <y> ; <x> t\<close>, with \<open>y\<close>
  before \<open>x\<close> and both in decimal (digits only, none for nothing, no leading zero). When
  \<^verbatim>\<open>printf\<close> reports an error the result is the error tuple with the string
  \<^verbatim>\<open>"Failed to set position"\<close>; otherwise the stream is flushed and the result is
  \<^verbatim>\<open>{ok, "set"}\<close>, whatever \<^verbatim>\<open>fflush\<close> returns.
\<close>

lemma set_position_posix_calls:
  assumes "0 \<le> x" "x \<le> 32767" "0 \<le> y" "y \<le> 32767"
  shows "tb_set_position Posix w 2 [Integer x, Integer y] =
           (if printf_ok w
            then (Return ok_set,
                  w\<lparr>trace := trace w @
                     [Printf ([0x1B, 0x5B, 0x33, 0x3B] @ dec_of_nat (nat y) @ [0x3B] @
                              dec_of_nat (nat x) @ [0x74]),
                      Fflush_stdout]\<rparr>)
            else (Return (error_string ''Failed to set position''),
                  w\<lparr>trace := trace w @
                     [Printf ([0x1B, 0x5B, 0x33, 0x3B] @ dec_of_nat (nat y) @ [0x3B] @
                              dec_of_nat (nat x) @ [0x74])]\<rparr>)) \<and>
         nat_of_dec (dec_of_nat (nat y)) = nat y \<and> nat_of_dec (dec_of_nat (nat x)) = nat x"
proof -
  have gx: "enif_get_int (Integer x) = Some (word_of_int x)"
    and gy: "enif_get_int (Integer y) = Some (word_of_int y)"
    using assms by (simp_all add: enif_get_int_Integer)
  have sx: "sint (word_of_int x :: c_int) = x" and sy: "sint (word_of_int y :: c_int) = y"
    using assms by (simp_all add: sint_c_int)
  have fx: "fmt_d (word_of_int x) = dec_of_nat (nat x)"
    and fy: "fmt_d (word_of_int y) = dec_of_nat (nat y)"
    using assms by (simp_all add: fmt_d_nonneg)
  have out: "csi_position (word_of_int y) (word_of_int x) =
      [0x1B, 0x5B, 0x33, 0x3B] @ dec_of_nat (nat y) @ [0x3B] @ dec_of_nat (nat x) @ [0x74]"
    by (simp add: csi_position_def c_lit_def fx fy)
  have "tb_set_position Posix w 2 [Integer x, Integer y] =
      (let (n, w') = printf w (csi_position (word_of_int y) (word_of_int x)) in
       if n < 0 then (Return (error_string ''Failed to set position''), w')
       else (Return ok_set, snd (fflush_stdout w')))"
    using assms
    by (simp add: tb_set_position_def conv_def arg2 gx gy sx sy fflush_stdout_def split: prod.splits)
  then show ?thesis
    by (simp add: out printf_def fflush_stdout_def emit_def nat_of_dec_dec_of_nat)
qed

text \<open>
  Claim C5 says that on the escape-sequence branch \<^verbatim>\<open>set_position\<close> emits
  \<^verbatim>\<open>ESC [ 3 ; <y> ; <x> t\<close>, flushes the stream, returns \<open>Set\<close> whenever the write succeeds,
  and that a write error yields \<open>PlatformCallFailed("write")\<close>. The handler tests the result
  of \<^verbatim>\<open>printf\<close> but drops the result of \<^verbatim>\<open>fflush\<close>. When standard output is buffered,
  \<^verbatim>\<open>printf\<close> succeeds and the write fails in \<^verbatim>\<open>fflush\<close>, which returns \<^verbatim>\<open>EOF\<close>: for
  \<open>(x, y) = (0, 345)\<close> the handler then returns \<^verbatim>\<open>{ok, "set"}\<close>, not an error.
\<close>

theorem set_position_flush_error_unreported:
  "printf_ok flush_fails \<and>
   fst (fflush_stdout
      (snd (printf flush_fails [0x1B, 0x5B, 0x33, 0x3B, 0x33, 0x34, 0x35, 0x3B, 0x30, 0x74]))) = - 1 \<and>
   fst (tb_set_position Posix flush_fails 2 [Integer 0, Integer 345]) = Return ok_set \<and>
   \<not> platform_call_failed (fst (tb_set_position Posix flush_fails 2 [Integer 0, Integer 345])) \<and>
   trace (snd (tb_set_position Posix flush_fails 2 [Integer 0, Integer 345])) =
     [Printf [0x1B, 0x5B, 0x33, 0x3B, 0x33, 0x34, 0x35, 0x3B, 0x30, 0x74], Fflush_stdout]"
proof -
  have w: "printf_ok flush_fails" "\<not> fflush_ok flush_fails" "trace flush_fails = []"
    by (simp_all add: flush_fails_def calm_def)
  have d: "dec_of_nat 345 = [0x33, 0x34, 0x35]" "dec_of_nat 0 = [0x30]"
    by (simp_all add: dec_of_nat.simps)
  have r: "tb_set_position Posix flush_fails 2 [Integer 0, Integer 345] =
      (Return ok_set,
       flush_fails\<lparr>trace :=
         [Printf [0x1B, 0x5B, 0x33, 0x3B, 0x33, 0x34, 0x35, 0x3B, 0x30, 0x74], Fflush_stdout]\<rparr>)"
    by (simp add: tb_set_position_def conv_def arg2 enif_get_int_Integer csi_position_def
        fmt_d_def c_lit_def d printf_def fflush_stdout_def emit_def w)
  show ?thesis
    by (simp add: r w printf_def fflush_stdout_def emit_def platform_call_failed_title)
qed

subsection \<open>Window title on the escape-sequence branch\<close>

lemma calm_facts:
  "trace calm = []" "printf_ok calm" "malloc_ok calm" "set_console_title_ok calm"
  "engine_ret calm c = 0"
  by (simp_all add: calm_def)

text \<open>
  Claim C3 says that on the escape-sequence branch every payload of at most 255 bytes
  succeeds and that the title bytes inside the emitted sequence \<^verbatim>\<open>ESC ] 0 ; <title> BEL\<close>
  are exactly the payload. The title is printed with \<^verbatim>\<open>%s\<close> from a zero-terminated
  buffer, so a payload with a zero byte is cut there: for the binary \<^verbatim>\<open><<65, 0, 66>>\<close> the
  handler prints \<^verbatim>\<open>ESC ] 0 ; A BEL\<close> and returns \<^verbatim>\<open>{ok, "set"}\<close>.
\<close>

theorem set_title_embedded_zero_counterexample:
  "length [0x41, 0x00, 0x42 :: byte] \<le> 255 \<and>
   fst (tb_set_title Posix calm 1 [Binary [0x41, 0x00, 0x42]]) = Return ok_set \<and>
   trace (snd (tb_set_title Posix calm 1 [Binary [0x41, 0x00, 0x42]])) =
     [Printf [0x1B, 0x5D, 0x30, 0x3B, 0x41, 0x07], Fflush_stdout] \<and>
   [0x1B, 0x5D, 0x30, 0x3B, 0x41, 0x07] \<noteq>
     [0x1B, 0x5D, 0x30, 0x3B] @ [0x41, 0x00, 0x42] @ [0x07 :: byte]"
proof -
  have buf: "title_buffer (Binary [0x41, 0x00, 0x42]) = Some (marshal [0x41, 0x00, 0x42])"
    by (simp add: title_buffer_Binary)
  show ?thesis
    by (simp add: set_title_posix_of_buffer [OF buf] calm_facts osc_title_marshal
        fflush_stdout_def trace_emit)
qed

text \<open>
  Claim C3 as amended: on the escape-sequence branch, for every payload \<open>p\<close> of at most
  255 bytes, given as a binary or as a legacy string, the handler emits the OSC-0 sequence
  \<^verbatim>\<open>ESC ] 0 ; <title> BEL\<close>, followed by a flush of standard output, where the title bytes
  are the bytes of \<open>p\<close> before its first zero byte, all of \<open>p\<close> when \<open>p\<close> has no zero byte.
  The result is \<open>Set\<close> when the write succeeds, in \<^verbatim>\<open>printf\<close> and in the flush; a write error
  that \<^verbatim>\<open>printf\<close> reports yields \<open>PlatformCallFailed("write")\<close>, the error tuple with the
  string \<^verbatim>\<open>"Failed to set title"\<close>. What is returned when only the flush fails is left
  open here.
\<close>

theorem set_title_posix_emits:
  assumes "length p \<le> 255"
  shows "let title = takeWhile (\<lambda>b. b \<noteq> 0) p;
             out = Printf ([0x1B, 0x5D, 0x30, 0x3B] @ title @ [0x07])
         in (\<forall>a \<in> {Binary p, string_term p}.
               (printf_ok w \<and> fflush_ok w \<longrightarrow>
                  tb_set_title Posix w 1 [a] =
                    (Return ok_set, w\<lparr>trace := trace w @ [out, Fflush_stdout]\<rparr>)) \<and>
               (\<not> printf_ok w \<longrightarrow>
                  tb_set_title Posix w 1 [a] =
                    (Return (error_string ''Failed to set title''),
                     w\<lparr>trace := trace w @ [out]\<rparr>) \<and>
                  platform_call_failed (fst (tb_set_title Posix w 1 [a]))) \<and>
               (printf_ok w \<longrightarrow>
                  trace (snd (tb_set_title Posix w 1 [a])) = trace w @ [out, Fflush_stdout])) \<and>
            (0 \<notin> set p \<longrightarrow> title = p)"
proof -
  have b: "title_buffer (Binary p) = Some (marshal p)"
    using assms by (simp add: title_buffer_Binary)
  have s: "title_buffer (string_term p) = Some (marshal p)"
    using assms by (simp add: title_buffer_string_term)
  show ?thesis
    by (simp add: Let_def set_title_posix_of_buffer [OF b] set_title_posix_of_buffer [OF s]
        osc_title_marshal fflush_stdout_def emit_def takeWhile_zero_free
        platform_call_failed_title)
qed

theorem set_title_posix_emits_witness:
  "length [0x48, 0x69 :: byte] \<le> 255 \<and> (0 :: byte) \<notin> set [0x48, 0x69] \<and>
   printf_ok calm \<and> fflush_ok calm \<and>
   tb_set_title Posix calm 1 [Binary [0x48, 0x69]] =
     (Return ok_set,
      calm\<lparr>trace := [Printf [0x1B, 0x5D, 0x30, 0x3B, 0x48, 0x69, 0x07], Fflush_stdout]\<rparr>) \<and>
   tb_set_title Posix calm 1 [enif_make_string ''Hi''] =
     (Return ok_set,
      calm\<lparr>trace := [Printf [0x1B, 0x5D, 0x30, 0x3B, 0x48, 0x69, 0x07], Fflush_stdout]\<rparr>) \<and>
   \<not> printf_ok (calm\<lparr>printf_ok := False\<rparr>) \<and>
   fst (tb_set_title Posix (calm\<lparr>printf_ok := False\<rparr>) 1 [Binary [0x48, 0x69]]) =
     Return (error_string ''Failed to set title'') \<and>
   platform_call_failed
     (fst (tb_set_title Posix (calm\<lparr>printf_ok := False\<rparr>) 1 [Binary [0x48, 0x69]])) \<and>
   trace (snd (tb_set_title Posix (calm\<lparr>printf_ok := False\<rparr>) 1 [Binary [0x48, 0x69]])) =
     [Printf [0x1B, 0x5D, 0x30, 0x3B, 0x48, 0x69, 0x07]]"
proof -
  have e: "enif_make_string ''Hi'' = string_term [0x48, 0x69]"
    by (simp add: enif_make_string_def string_term_def)
  have c: "printf_ok calm" "fflush_ok calm" "trace calm = []"
    by (simp_all add: calm_def)
  have ok: "tb_set_title Posix calm 1 [Binary [0x48, 0x69]] =
      (Return ok_set,
       calm\<lparr>trace := [Printf [0x1B, 0x5D, 0x30, 0x3B, 0x48, 0x69, 0x07], Fflush_stdout]\<rparr>)"
    "tb_set_title Posix calm 1 [string_term [0x48, 0x69]] =
      (Return ok_set,
       calm\<lparr>trace := [Printf [0x1B, 0x5D, 0x30, 0x3B, 0x48, 0x69, 0x07], Fflush_stdout]\<rparr>)"
    using set_title_posix_emits [of "[0x48, 0x69]" calm]
    by (simp_all add: Let_def c)
  have bad: "tb_set_title Posix (calm\<lparr>printf_ok := False\<rparr>) 1 [Binary [0x48, 0x69]] =
      (Return (error_string ''Failed to set title''),
       calm\<lparr>printf_ok := False, trace := [Printf [0x1B, 0x5D, 0x30, 0x3B, 0x48, 0x69, 0x07]]\<rparr>)"
    "platform_call_failed
      (fst (tb_set_title Posix (calm\<lparr>printf_ok := False\<rparr>) 1 [Binary [0x48, 0x69]]))"
    using set_title_posix_emits [of "[0x48, 0x69]" "calm\<lparr>printf_ok := False\<rparr>"]
    by (simp_all add: Let_def c platform_call_failed_title)
  show ?thesis
    by (simp add: e ok bad c platform_call_failed_title)
qed

subsection \<open>Marshalling\<close>

lemma arg5:
  "arg [a, b, c, d, e] 0 = Some a" "arg [a, b, c, d, e] (Suc 0) = Some b"
  "arg [a, b, c, d, e] 2 = Some c" "arg [a, b, c, d, e] 3 = Some d"
  "arg [a, b, c, d, e] 4 = Some e"
  by (simp_all add: arg_def)

lemma nif_tb_print_forwards:
  assumes "enif_get_int ax = Some x" "enif_get_int ay = Some y"
    "enif_get_uint afg = Some fg" "enif_get_uint abg = Some bg" "malloc_ok w"
  shows "nif_tb_print w argc [ax, ay, afg, abg, Binary p] =
           (Return (enif_make_int (engine_ret w (Tb_print x y fg bg (marshal p)))),
            emit w (Engine (Tb_print x y fg bg (marshal p))))"
  using assms
  by (simp add: nif_tb_print_def conv_def arg5 enif_inspect_binary_def tb_call_def Let_def)

text \<open>
  Claim C6: marshalling a payload of \<open>n\<close> bytes, \<open>n\<close> below the capacity 256 of the title
  buffer, gives a buffer of \<open>n + 1\<close> bytes: the \<open>n\<close> bytes of the payload followed by one
  zero byte, for a binary and for a legacy string alike. The first \<open>n\<close> bytes read back are
  the payload, and so is the C string in the buffer when the payload has no zero byte.
  \<^verbatim>\<open>print\<close> marshals its binary the same way into allocated memory and passes that buffer
  to the Terminal Engine.
\<close>

theorem marshal_roundtrip:
  assumes "length p = n" "n < 256"
  shows "title_buffer (Binary p) = Some (marshal p) \<and>
         title_buffer (string_term p) = Some (marshal p) \<and>
         length (marshal p) = n + 1 \<and>
         take n (marshal p) = p \<and>
         drop n (marshal p) = [0] \<and>
         (0 \<notin> set p \<longrightarrow> c_string (marshal p) = p) \<and>
         (malloc_ok w \<longrightarrow>
            snd (nif_tb_print w 5 [Integer 0, Integer 0, Integer 0, Integer 0, Binary p]) =
              emit w (Engine (Tb_print 0 0 0 0 (marshal p))))"
proof -
  have i: "enif_get_int (Integer 0) = Some 0" and u: "enif_get_uint (Integer 0) = Some 0"
    by (simp_all add: enif_get_int_Integer enif_get_uint_Integer)
  have "malloc_ok w \<Longrightarrow>
      snd (nif_tb_print w 5 [Integer 0, Integer 0, Integer 0, Integer 0, Binary p]) =
        emit w (Engine (Tb_print 0 0 0 0 (marshal p)))"
    by (simp add: nif_tb_print_forwards [OF i i u u])
  moreover have "title_buffer (Binary p) = Some (marshal p)"
    using assms by (simp add: title_buffer_Binary)
  moreover have "title_buffer (string_term p) = Some (marshal p)"
    using assms by (simp add: title_buffer_string_term)
  moreover have "0 \<notin> set p \<Longrightarrow> c_string (marshal p) = p"
    by (simp add: marshal_def c_string_marshal takeWhile_zero_free)
  ultimately show ?thesis
    using assms by (simp add: marshal_def)
qed

theorem marshal_roundtrip_witness:
  "length [0x48, 0x69 :: byte] = 2 \<and> (2 :: nat) < 256 \<and>
   title_buffer (Binary [0x48, 0x69]) = Some [0x48, 0x69, 0x00] \<and>
   title_buffer (enif_make_string ''Hi'') = Some [0x48, 0x69, 0x00] \<and>
   marshal [0x48, 0x69] = [0x48, 0x69, 0x00] \<and>
   take 2 (marshal [0x48, 0x69]) = [0x48, 0x69] \<and>
   c_string (marshal [0x48, 0x69]) = [0x48, 0x69] \<and>
   trace (snd (nif_tb_print calm 5 [Integer 0, Integer 0, Integer 0, Integer 0, Binary [0x48, 0x69]])) =
     [Engine (Tb_print 0 0 0 0 [0x48, 0x69, 0x00])]"
proof -
  have e: "enif_make_string ''Hi'' = string_term [0x48, 0x69]"
    by (simp add: enif_make_string_def string_term_def)
  have m: "marshal [0x48, 0x69] = [0x48, 0x69, 0x00]"
    by (simp add: marshal_def)
  show ?thesis
    using marshal_roundtrip [of "[0x48, 0x69]" 2 calm]
    by (simp add: e m calm_facts trace_emit)
qed

subsection \<open>Cursor and cell coordinates\<close>

text \<open>
  Claim C9: \<^verbatim>\<open>set_cursor\<close> and \<^verbatim>\<open>set_cell\<close> accept every pair of integers of the width of
  \<^verbatim>\<open>int\<close>, negative and large ones included, check no range, and pass the values unchanged
  to the Terminal Engine; \<^verbatim>\<open>set_cursor\<close> then returns the success marker \<^verbatim>\<open>ok\<close>.
\<close>

theorem cursor_and_cell_forward_unchanged:
  assumes "- (2 ^ 31) \<le> x" "x < 2 ^ 31" "- (2 ^ 31) \<le> y" "y < 2 ^ 31"
  shows "nif_tb_set_cursor w argc [Integer x, Integer y] =
           (Return (Atom ''ok''), emit w (Engine (Tb_set_cursor (word_of_int x) (word_of_int y)))) \<and>
         sint (word_of_int x :: c_int) = x \<and> sint (word_of_int y :: c_int) = y \<and>
         (\<forall>ch fg bg. 0 \<le> ch \<and> ch < 2 ^ 32 \<and> 0 \<le> fg \<and> fg < 2 ^ 32 \<and> 0 \<le> bg \<and> bg < 2 ^ 32 \<longrightarrow>
            nif_tb_set_cell w argc [Integer x, Integer y, Integer ch, Integer fg, Integer bg] =
              (Return (enif_make_int (engine_ret w
                 (Tb_set_cell (word_of_int x) (word_of_int y)
                    (word_of_int ch) (word_of_int fg) (word_of_int bg)))),
               emit w (Engine
                 (Tb_set_cell (word_of_int x) (word_of_int y)
                    (word_of_int ch) (word_of_int fg) (word_of_int bg)))))"
  using assms
  by (simp add: nif_tb_set_cursor_def nif_tb_set_cell_def conv_def arg2 arg5
      enif_get_int_Integer enif_get_uint_Integer tb_call_def sint_c_int)

theorem cursor_and_cell_forward_unchanged_witness:
  "- (2 ^ 31) \<le> (- 5 :: int) \<and> (- 5 :: int) < 2 ^ 31 \<and>
   - (2 ^ 31) \<le> (2000000000 :: int) \<and> (2000000000 :: int) < 2 ^ 31 \<and>
   fst (nif_tb_set_cursor calm 2 [Integer (- 5), Integer 2000000000]) = Return (Atom ''ok'') \<and>
   trace (snd (nif_tb_set_cursor calm 2 [Integer (- 5), Integer 2000000000])) =
     [Engine (Tb_set_cursor (- 5) 2000000000)] \<and>
   sint (- 5 :: c_int) = - 5 \<and> sint (2000000000 :: c_int) = 2000000000 \<and>
   trace (snd (nif_tb_set_cell calm 5
       [Integer (- 5), Integer 2000000000, Integer 65, Integer 16777215, Integer 0])) =
     [Engine (Tb_set_cell (- 5) 2000000000 65 16777215 0)]"
proof -
  have c: "nif_tb_set_cell calm 5
      [Integer (- 5), Integer 2000000000, Integer 65, Integer 16777215, Integer 0] =
      (Return (enif_make_int (engine_ret calm (Tb_set_cell (- 5) 2000000000 65 16777215 0))),
       emit calm (Engine (Tb_set_cell (- 5) 2000000000 65 16777215 0)))"
    using cursor_and_cell_forward_unchanged [of "- 5" 2000000000 calm 5] by simp
  show ?thesis
    using cursor_and_cell_forward_unchanged [of "- 5" 2000000000 calm 2]
    by (simp add: c calm_facts trace_emit)
qed

subsection \<open>Validation of integer arguments\<close>

lemma enif_get_int_None_iff: "enif_get_int t = None \<longleftrightarrow> \<not> representable_int t"
  by (cases t) (simp_all add: enif_get_int_def representable_int_def)

lemma enif_get_uint_None_iff: "enif_get_uint t = None \<longleftrightarrow> \<not> representable_uint t"
  by (cases t) (simp_all add: enif_get_uint_def representable_uint_def)

lemma arg1: "arg [a] 0 = Some a"
  by (simp add: arg_def)

lemma invalid_argument_simps:
  "invalid_argument Raise_badarg" "invalid_argument (Return error_badarg)"
  "\<not> invalid_argument Undefined_behaviour" "\<not> invalid_argument (Return (Atom a))"
  "\<not> invalid_argument (Return (Integer i))" "\<not> invalid_argument (Return (enif_make_int r))"
  by (simp_all add: invalid_argument_def error_badarg_def enif_make_int_def)

lemma set_cursor_invalid_iff:
  "invalid_argument (fst (nif_tb_set_cursor w argc [a0, a1])) \<longleftrightarrow>
     \<not> (representable_int a0 \<and> representable_int a1)"
  by (auto simp: nif_tb_set_cursor_def conv_def arg2 tb_call_def invalid_argument_simps
      enif_get_int_None_iff [symmetric] split: option.splits)

lemma set_cell_invalid_iff:
  "invalid_argument (fst (nif_tb_set_cell w argc [a0, a1, a2, a3, a4])) \<longleftrightarrow>
     \<not> (representable_int a0 \<and> representable_int a1 \<and> representable_uint a2 \<and>
        representable_uint a3 \<and> representable_uint a4)"
  by (auto simp: nif_tb_set_cell_def conv_def arg5 tb_call_def invalid_argument_simps
      enif_get_int_None_iff [symmetric] enif_get_uint_None_iff [symmetric] split: option.splits)

lemma set_input_mode_invalid_iff:
  "invalid_argument (fst (nif_tb_set_input_mode w argc [a0])) \<longleftrightarrow> \<not> representable_int a0"
  by (auto simp: nif_tb_set_input_mode_def conv_def arg1 tb_call_def invalid_argument_simps
      enif_get_int_None_iff [symmetric] split: option.splits)

lemma set_output_mode_invalid_iff:
  "invalid_argument (fst (nif_tb_set_output_mode w argc [a0])) \<longleftrightarrow> \<not> representable_int a0"
  by (auto simp: nif_tb_set_output_mode_def conv_def arg1 tb_call_def invalid_argument_simps
      enif_get_int_None_iff [symmetric] split: option.splits)

lemma print_invalid_iff:
  "invalid_argument (fst (nif_tb_print w argc [a0, a1, a2, a3, Binary p])) \<longleftrightarrow>
     \<not> (representable_int a0 \<and> representable_int a1 \<and> representable_uint a2 \<and>
        representable_uint a3)"
  by (auto simp: nif_tb_print_def conv_def arg5 tb_call_def invalid_argument_simps Let_def
      enif_inspect_binary_def
      enif_get_int_None_iff [symmetric] enif_get_uint_None_iff [symmetric] split: option.splits)

lemma set_position_not_representable:
  "\<not> (representable_int a0 \<and> representable_int a1) \<Longrightarrow>
   tb_set_position pf w 2 [a0, a1] = (Return error_badarg, w)"
  by (auto simp: tb_set_position_def conv_def arg2
      enif_get_int_None_iff [symmetric] split: option.splits)

text \<open>
  Claim C7: an integer argument (a coordinate, a mode, a cell attribute) passes validation
  exactly when the boundary value converts losslessly to the \<^verbatim>\<open>int\<close> or \<^verbatim>\<open>unsigned int\<close> the
  handler expects, and the converted value is the value given. A handler of the Terminal
  Engine operations fails with \<open>InvalidArgument\<close> exactly when one of its integer arguments
  is not numeric or out of width; \<^verbatim>\<open>set_position\<close> fails with \<open>InvalidArgument\<close> on every
  such argument as well (its further range check is the subject of claim C2).
\<close>

theorem integer_validation_iff_representable:
  "(enif_get_int t \<noteq> None \<longleftrightarrow> representable_int t) \<and>
   (enif_get_uint t \<noteq> None \<longleftrightarrow> representable_uint t) \<and>
   (\<forall>v. enif_get_int (Integer i) = Some v \<longrightarrow> sint v = i) \<and>
   (\<forall>v. enif_get_uint (Integer i) = Some v \<longrightarrow> uint v = i) \<and>
   (invalid_argument (fst (nif_tb_set_cursor w argc [a0, a1])) \<longleftrightarrow>
      \<not> (representable_int a0 \<and> representable_int a1)) \<and>
   (invalid_argument (fst (nif_tb_set_cell w argc [a0, a1, a2, a3, a4])) \<longleftrightarrow>
      \<not> (representable_int a0 \<and> representable_int a1 \<and> representable_uint a2 \<and>
         representable_uint a3 \<and> representable_uint a4)) \<and>
   (invalid_argument (fst (nif_tb_set_input_mode w argc [a0])) \<longleftrightarrow> \<not> representable_int a0) \<and>
   (invalid_argument (fst (nif_tb_set_output_mode w argc [a0])) \<longleftrightarrow> \<not> representable_int a0) \<and>
   (invalid_argument (fst (nif_tb_print w argc [a0, a1, a2, a3, Binary p])) \<longleftrightarrow>
      \<not> (representable_int a0 \<and> representable_int a1 \<and> representable_uint a2 \<and>
         representable_uint a3)) \<and>
   (\<not> (representable_int a0 \<and> representable_int a1) \<longrightarrow>
      tb_set_position pf w 2 [a0, a1] = (Return error_badarg, w))"
proof -
  have l1: "\<forall>v. enif_get_int (Integer i) = Some v \<longrightarrow> sint v = i"
    by (auto simp: enif_get_int_Integer sint_c_int split: if_splits)
  have l2: "\<forall>v. enif_get_uint (Integer i) = Some v \<longrightarrow> uint v = i"
    by (auto simp: enif_get_uint_Integer uint_c_uint split: if_splits)
  have c1: "enif_get_int t \<noteq> None \<longleftrightarrow> representable_int t"
    by (simp add: enif_get_int_None_iff)
  have c2: "enif_get_uint t \<noteq> None \<longleftrightarrow> representable_uint t"
    by (simp add: enif_get_uint_None_iff)
  have l3: "\<not> (representable_int a0 \<and> representable_int a1) \<longrightarrow>
      tb_set_position pf w 2 [a0, a1] = (Return error_badarg, w)"
    using set_position_not_representable [of a0 a1 pf w] by blast
  show ?thesis
    by (intro conjI)
      (rule c1 c2 l1 l2 l3 set_cursor_invalid_iff set_cell_invalid_iff
        set_input_mode_invalid_iff set_output_mode_invalid_iff print_invalid_iff)+
qed

theorem integer_validation_iff_representable_witness:
  "representable_int (Integer 2147483647) \<and> \<not> representable_int (Integer 2147483648) \<and>
   \<not> representable_int (Atom ''x'') \<and>
   representable_uint (Integer 4294967295) \<and> \<not> representable_uint (Integer (- 1)) \<and>
   enif_get_int (Integer 2147483648) = None \<and>
   sint (word_of_int 2147483647 :: c_int) = 2147483647 \<and>
   invalid_argument (fst (nif_tb_set_cursor calm 2 [Integer 1, Integer 2147483648])) \<and>
   \<not> invalid_argument (fst (nif_tb_set_cursor calm 2 [Integer 1, Integer 2147483647])) \<and>
   invalid_argument (fst (nif_tb_set_cell calm 5
      [Integer 5, Integer 3, Integer 65, Integer (- 1), Integer 0])) \<and>
   \<not> invalid_argument (fst (nif_tb_set_cell calm 5
      [Integer 5, Integer 3, Integer 65, Integer 16777215, Integer 0])) \<and>
   tb_set_position Posix calm 2 [Atom ''x'', Integer 0] = (Return error_badarg, calm)"
proof -
  have r: "representable_int (Integer 2147483647)" "\<not> representable_int (Integer 2147483648)"
    "\<not> representable_int (Atom ''x'')" "representable_int (Integer 1)"
    "representable_int (Integer 5)" "representable_int (Integer 3)" "representable_int (Integer 0)"
    "representable_uint (Integer 4294967295)" "\<not> representable_uint (Integer (- 1))"
    "representable_uint (Integer 65)" "representable_uint (Integer 16777215)"
    "representable_uint (Integer 0)"
    by (simp_all add: representable_int_def representable_uint_def)
  have a: "invalid_argument (fst (nif_tb_set_cursor calm 2 [Integer 1, Integer 2147483648]))"
    "enif_get_int (Integer 2147483648) = None"
    using integer_validation_iff_representable
      [where t = "Integer 2147483648" and w = calm and argc = 2 and ?a0.0 = "Integer 1"
        and ?a1.0 = "Integer 2147483648"]
    by (simp_all add: r)
  have b: "\<not> invalid_argument (fst (nif_tb_set_cursor calm 2 [Integer 1, Integer 2147483647]))"
    "sint (word_of_int 2147483647 :: c_int) = 2147483647"
    using integer_validation_iff_representable
      [where i = 2147483647 and w = calm and argc = 2 and ?a0.0 = "Integer 1"
        and ?a1.0 = "Integer 2147483647"]
    by (simp_all add: r enif_get_int_Integer)
  have c: "invalid_argument (fst (nif_tb_set_cell calm 5
      [Integer 5, Integer 3, Integer 65, Integer (- 1), Integer 0]))"
    using integer_validation_iff_representable
      [where w = calm and argc = 5 and ?a0.0 = "Integer 5" and ?a1.0 = "Integer 3"
        and ?a2.0 = "Integer 65" and ?a3.0 = "Integer (- 1)" and ?a4.0 = "Integer 0"]
    by (simp add: r)
  have d: "\<not> invalid_argument (fst (nif_tb_set_cell calm 5
      [Integer 5, Integer 3, Integer 65, Integer 16777215, Integer 0]))"
    using integer_validation_iff_representable
      [where w = calm and argc = 5 and ?a0.0 = "Integer 5" and ?a1.0 = "Integer 3"
        and ?a2.0 = "Integer 65" and ?a3.0 = "Integer 16777215" and ?a4.0 = "Integer 0"]
    by (simp add: r)
  have e: "tb_set_position Posix calm 2 [Atom ''x'', Integer 0] = (Return error_badarg, calm)"
    using integer_validation_iff_representable
      [where w = calm and pf = Posix and ?a0.0 = "Atom ''x''" and ?a1.0 = "Integer 0"]
    by (simp add: r)
  show ?thesis
    using a b c d e by (simp add: r)
qed

subsection \<open>Argument counts\<close>


text \<open>The handlers of the Terminal Engine operations do not look at \<^verbatim>\<open>argc\<close>
  (\<^verbatim>\<open>(void)argc;\<close>): the Dispatcher alone keeps a wrong number of arguments from them.\<close>

lemma engine_handlers_ignore_argc:
  "\<forall>(n, a, h) \<in> set nif_funcs. n \<noteq> ''tb_set_title'' \<and> n \<noteq> ''tb_set_position'' \<longrightarrow>
     h pf w argc argv = h pf w argc' argv"
  by (simp add: nif_funcs_def nif_tb_init_def nif_tb_shutdown_def nif_tb_width_def
      nif_tb_height_def nif_tb_clear_def nif_tb_present_def nif_tb_set_cursor_def
      nif_tb_hide_cursor_def nif_tb_set_cell_def nif_tb_set_input_mode_def
      nif_tb_set_output_mode_def nif_tb_print_def)

text \<open>The table read as a function of the name, and of the name and the arity.\<close>

lemma registered_arity_unfold:
  "registered_arity name =
     (if name = ''tb_init'' then Some 0
      else if name = ''tb_shutdown'' then Some 0
      else if name = ''tb_width'' then Some 0
      else if name = ''tb_height'' then Some 0
      else if name = ''tb_clear'' then Some 0
      else if name = ''tb_present'' then Some 0
      else if name = ''tb_set_cursor'' then Some 2
      else if name = ''tb_hide_cursor'' then Some 0
      else if name = ''tb_set_cell'' then Some 5
      else if name = ''tb_set_input_mode'' then Some 1
      else if name = ''tb_set_output_mode'' then Some 1
      else if name = ''tb_print'' then Some 5
      else if name = ''tb_set_title'' then Some 1
      else if name = ''tb_set_position'' then Some 2
      else None)"
  by (simp add: registered_arity_def nif_funcs_def)

lemma lookup_nif_unfold:
  "lookup_nif name n =
     (if name = ''tb_init'' \<and> n = 0 then Some (\<lambda>pf. nif_tb_init)
      else if name = ''tb_shutdown'' \<and> n = 0 then Some (\<lambda>pf. nif_tb_shutdown)
      else if name = ''tb_width'' \<and> n = 0 then Some (\<lambda>pf. nif_tb_width)
      else if name = ''tb_height'' \<and> n = 0 then Some (\<lambda>pf. nif_tb_height)
      else if name = ''tb_clear'' \<and> n = 0 then Some (\<lambda>pf. nif_tb_clear)
      else if name = ''tb_present'' \<and> n = 0 then Some (\<lambda>pf. nif_tb_present)
      else if name = ''tb_set_cursor'' \<and> n = 2 then Some (\<lambda>pf. nif_tb_set_cursor)
      else if name = ''tb_hide_cursor'' \<and> n = 0 then Some (\<lambda>pf. nif_tb_hide_cursor)
      else if name = ''tb_set_cell'' \<and> n = 5 then Some (\<lambda>pf. nif_tb_set_cell)
      else if name = ''tb_set_input_mode'' \<and> n = 1 then Some (\<lambda>pf. nif_tb_set_input_mode)
      else if name = ''tb_set_output_mode'' \<and> n = 1 then Some (\<lambda>pf. nif_tb_set_output_mode)
      else if name = ''tb_print'' \<and> n = 5 then Some (\<lambda>pf. nif_tb_print)
      else if name = ''tb_set_title'' \<and> n = 1 then Some tb_set_title
      else if name = ''tb_set_position'' \<and> n = 2 then Some tb_set_position
      else None)"
  by (simp add: lookup_nif_def nif_funcs_def)




lemma lookup_nif_right_arity:
  "registered_arity name = Some a \<Longrightarrow> lookup_nif name a \<noteq> None"
  unfolding registered_arity_unfold lookup_nif_unfold
  by (simp split: if_splits)


lemma invoke_right_arity:
  "lookup_nif name (length argv) = Some h \<Longrightarrow>
   invoke pf w name argv = h pf w (int (length argv)) argv"
  by (simp add: invoke_def)



subsection \<open>No effect before validation has passed\<close>

text \<open>Whenever a handler of the table reports \<open>InvalidArgument\<close>, it has made no call to
  the Terminal Engine or to the platform and has written nothing.\<close>

lemma conv_invalid_leaves_world:
  assumes "\<And>v. invalid_argument (fst (k v)) \<Longrightarrow> snd (k v) = w"
    and "invalid_argument (fst (conv get bad w argv i k))"
  shows "snd (conv get bad w argv i k) = w"
  using assms by (auto simp: conv_def split: option.splits)

lemma enif_make_string_not_Atom: "enif_make_string s \<noteq> Atom a"
  by (cases s) (simp_all add: enif_make_string_def)

lemma not_invalid_results:
  "\<not> invalid_argument (Return ok_set)" "\<not> invalid_argument (Return (error_string s))"
  by (simp_all add: invalid_argument_def ok_set_def error_string_def error_badarg_def
      enif_make_string_not_Atom)

lemma set_title_invalid_leaves_world:
  "invalid_argument (fst (tb_set_title pf w argc argv)) \<Longrightarrow> snd (tb_set_title pf w argc argv) = w"
  by (auto simp: tb_set_title_def printf_def fflush_stdout_def win_SetConsoleTitle_def not_invalid_results
      invalid_argument_simps split: if_splits option.splits platform.splits)

lemma set_position_invalid_leaves_world:
  "invalid_argument (fst (tb_set_position pf w argc argv)) \<Longrightarrow>
   snd (tb_set_position pf w argc argv) = w"
  unfolding tb_set_position_def
  by (auto simp: conv_def printf_def fflush_stdout_def win_GetConsoleWindow_def win_GetWindowRect_def
      win_MoveWindow_def Let_def not_invalid_results invalid_argument_simps
      split: if_splits option.splits platform.splits)

lemma engine_invalid_leaves_world:
  "invalid_argument (fst (nif_tb_init w argc argv)) \<Longrightarrow> snd (nif_tb_init w argc argv) = w"
  "invalid_argument (fst (nif_tb_shutdown w argc argv)) \<Longrightarrow> snd (nif_tb_shutdown w argc argv) = w"
  "invalid_argument (fst (nif_tb_width w argc argv)) \<Longrightarrow> snd (nif_tb_width w argc argv) = w"
  "invalid_argument (fst (nif_tb_height w argc argv)) \<Longrightarrow> snd (nif_tb_height w argc argv) = w"
  "invalid_argument (fst (nif_tb_clear w argc argv)) \<Longrightarrow> snd (nif_tb_clear w argc argv) = w"
  "invalid_argument (fst (nif_tb_present w argc argv)) \<Longrightarrow> snd (nif_tb_present w argc argv) = w"
  "invalid_argument (fst (nif_tb_hide_cursor w argc argv)) \<Longrightarrow>
     snd (nif_tb_hide_cursor w argc argv) = w"
  by (simp_all add: nif_tb_init_def nif_tb_shutdown_def nif_tb_width_def nif_tb_height_def
      nif_tb_clear_def nif_tb_present_def nif_tb_hide_cursor_def tb_call_def
      invalid_argument_simps)

lemma engine_args_invalid_leaves_world:
  "invalid_argument (fst (nif_tb_set_cursor w argc argv)) \<Longrightarrow>
     snd (nif_tb_set_cursor w argc argv) = w"
  "invalid_argument (fst (nif_tb_set_cell w argc argv)) \<Longrightarrow>
     snd (nif_tb_set_cell w argc argv) = w"
  "invalid_argument (fst (nif_tb_set_input_mode w argc argv)) \<Longrightarrow>
     snd (nif_tb_set_input_mode w argc argv) = w"
  "invalid_argument (fst (nif_tb_set_output_mode w argc argv)) \<Longrightarrow>
     snd (nif_tb_set_output_mode w argc argv) = w"
  "invalid_argument (fst (nif_tb_print w argc argv)) \<Longrightarrow>
     snd (nif_tb_print w argc argv) = w"
  unfolding nif_tb_set_cursor_def nif_tb_set_cell_def nif_tb_set_input_mode_def
    nif_tb_set_output_mode_def nif_tb_print_def
  by (erule conv_invalid_leaves_world [rotated],
      (erule conv_invalid_leaves_world [rotated])?,
      (erule conv_invalid_leaves_world [rotated])?,
      (erule conv_invalid_leaves_world [rotated])?,
      (erule conv_invalid_leaves_world [rotated])?,
      simp add: tb_call_def Let_def invalid_argument_simps split: if_splits)+

lemma invalid_argument_leaves_world:
  "(n, a, h) \<in> set nif_funcs \<Longrightarrow> invalid_argument (fst (h pf w argc argv)) \<Longrightarrow>
   snd (h pf w argc argv) = w"
  unfolding nif_funcs_def
  by (auto dest: engine_invalid_leaves_world engine_args_invalid_leaves_world
      set_title_invalid_leaves_world set_position_invalid_leaves_world)

text \<open>
  Claim C4 says that, for every operation, a failed validation of an argument (wrong type,
  integer out of width, coordinate out of range, oversized buffer) gives \<open>InvalidArgument\<close>
  and no side effect. The handlers validate before they act, as the lemmas above show, but
  \<^verbatim>\<open>set_title\<close> does not detect an oversized buffer given as a legacy string: for a string
  of 300 characters, on the branch of the native windowing API, the handler calls
  \<^verbatim>\<open>SetConsoleTitle\<close> with the first 255 characters and returns \<^verbatim>\<open>{ok, "set"}\<close>.
\<close>

theorem oversized_string_title_changes_world:
  "length (replicate 300 (0x78 :: byte)) \<ge> 256 \<and>
   fst (tb_set_title Win32 calm 1 [string_term (replicate 300 0x78)]) = Return ok_set \<and>
   \<not> invalid_argument (fst (tb_set_title Win32 calm 1 [string_term (replicate 300 0x78)])) \<and>
   trace (snd (tb_set_title Win32 calm 1 [string_term (replicate 300 0x78)])) =
     [SetConsoleTitle (replicate 255 0x78)] \<and>
   snd (tb_set_title Win32 calm 1 [string_term (replicate 300 0x78)]) \<noteq> calm"
proof -
  have buf: "title_buffer (string_term (replicate 300 0x78)) = Some (marshal (replicate 255 0x78))"
    by (simp add: title_buffer_string_term)
  have r: "tb_set_title Win32 calm 1 [string_term (replicate 300 0x78)] =
      (Return ok_set, emit calm (SetConsoleTitle (replicate 255 0x78)))"
    by (simp add: set_title_win32_of_buffer [OF buf] calm_facts marshal_def c_string_marshal)
  have "trace (emit calm (SetConsoleTitle (replicate 255 0x78))) \<noteq> trace calm"
    by (simp add: trace_emit calm_facts)
  then have "emit calm (SetConsoleTitle (replicate 255 0x78)) \<noteq> calm"
    by auto
  then show ?thesis
    by (simp add: r trace_emit calm_facts invalid_argument_def ok_set_def error_badarg_def)
qed

subsection \<open>Shapes of the results of the decoration handlers\<close>

text \<open>The decoration handlers return \<^verbatim>\<open>{error, badarg}\<close>, \<^verbatim>\<open>{ok, "set"}\<close> or an error
  tuple with one fixed string for each platform call that can fail, and these terms are
  pairwise distinct.\<close>

lemma enif_make_string_inject: "enif_make_string s = enif_make_string t \<longleftrightarrow> s = t"
proof (induction s arbitrary: t)
  case Nil
  then show ?case by (cases t) (simp_all add: enif_make_string_def)
next
  case (Cons c s)
  show ?case
  proof (cases t)
    case Nil
    then show ?thesis by (simp add: enif_make_string_def)
  next
    case (Cons d u)
    have "(of_char c :: int) = of_char d \<longleftrightarrow> c = d"
      by (rule of_char_eq_iff)
    with Cons.IH [of u] Cons show ?thesis
      by (simp add: enif_make_string_def)
  qed
qed

lemma result_shapes_distinct:
  "ok_set \<noteq> error_badarg" "error_string s \<noteq> error_badarg" "error_string s \<noteq> ok_set"
  "error_string s = error_string t \<longleftrightarrow> s = t"
  by (simp_all add: ok_set_def error_badarg_def error_string_def enif_make_string_not_Atom
      enif_make_string_inject)

lemma set_title_result_shapes:
  "fst (tb_set_title pf w argc argv) \<in>
     {Return error_badarg, Return ok_set, Undefined_behaviour,
      Return (error_string ''SetConsoleTitle failed''),
      Return (error_string ''Failed to set title'')}"
  by (auto simp: tb_set_title_def printf_def fflush_stdout_def win_SetConsoleTitle_def
      split: if_splits option.splits platform.splits)

lemma set_position_result_shapes:
  "fst (tb_set_position pf w argc argv) \<in>
     {Return error_badarg, Return ok_set, Undefined_behaviour,
      Return (error_string ''GetConsoleWindow failed''),
      Return (error_string ''GetWindowRect failed''),
      Return (error_string ''MoveWindow failed''),
      Return (error_string ''Failed to set position'')}"
  unfolding tb_set_position_def
  by (auto simp: conv_def printf_def fflush_stdout_def win_GetConsoleWindow_def win_GetWindowRect_def
      win_MoveWindow_def Let_def split: if_splits option.splits platform.splits)

text \<open>
  Claim C10 says that for \<^verbatim>\<open>set_title\<close> and \<^verbatim>\<open>set_position\<close> every validation failure,
  an oversized buffer included, returns the error tuple with the atom \<^verbatim>\<open>badarg\<close>. A legacy
  string of 256 characters returns the tuple of success, \<^verbatim>\<open>{ok, "set"}\<close>, where the binary
  with the same 256 bytes returns \<^verbatim>\<open>{error, badarg}\<close>.
\<close>

theorem oversized_string_title_reports_success:
  "fst (tb_set_title Posix calm 1 [string_term (replicate 256 0x7A)]) =
     Return (Tuple [Atom ''ok'', enif_make_string ''set'']) \<and>
   fst (tb_set_title Posix calm 1 [string_term (replicate 256 0x7A)]) \<noteq>
     Return (Tuple [Atom ''error'', Atom ''badarg'']) \<and>
   fst (tb_set_title Posix calm 1 [Binary (replicate 256 0x7A)]) =
     Return (Tuple [Atom ''error'', Atom ''badarg''])"
proof -
  have buf: "title_buffer (string_term (replicate 256 0x7A)) = Some (marshal (replicate 255 0x7A))"
    by (simp add: title_buffer_string_term)
  show ?thesis
    by (simp add: set_title_posix_of_buffer [OF buf] calm_facts ok_set_def
        set_title_binary_oversized error_badarg_def)
qed

end
